theory Spec2Isabelle
  imports Main "HOL-Library.Word"
begin

unbundle bit_operations_syntax

section \<open>The XIME service of the XAM kernel-call dispatch (xime_app.cc)\<close>

text \<open>
  The embedding follows \<^verbatim>\<open>src/xenia/kernel/xam/apps/xime_app.cc\<close>. The member function
  \<^verbatim>\<open>XimeApp::DispatchMessageSync\<close> translates the guest address of the buffer, switches
  on the message and logs. Its collaborators (the status constants, the memory object
  and the logging macros) are declared in headers that are not among the sources; each
  of them is modelled below and marked as such.
\<close>

type_synonym u8 = "8 word"
type_synonym u32 = "32 word"
type_synonym X_RESULT = "32 word"

subsection \<open>Result codes\<close>

text \<open>
  Modelled from the spec: the header that declares \<^verbatim>\<open>X_E_SUCCESS\<close>,
  \<^verbatim>\<open>X_STATUS_UNSUCCESSFUL\<close> and the macro \<^verbatim>\<open>XFAILED\<close> is missing. The spec
  asks for 32-bit status values, a generic success and a generic failure sentinel, and a
  failure predicate that reads the severity bits only. The values are those of the guest
  operating system's convention: success is zero, the generic failure is C0000001, and the
  severity is held by the two topmost bits.
\<close>

definition X_E_SUCCESS :: X_RESULT where
  "X_E_SUCCESS = 0x00000000"

definition X_STATUS_UNSUCCESSFUL :: X_RESULT where
  "X_STATUS_UNSUCCESSFUL = 0xC0000001"

definition severity_mask :: u32 where
  "severity_mask = 0xC0000000"

definition XSUCCEEDED :: "X_RESULT \<Rightarrow> bool" where
  "XSUCCEEDED s = (s AND severity_mask = 0)"

definition XFAILED :: "X_RESULT \<Rightarrow> bool" where
  "XFAILED s = (\<not> XSUCCEEDED s)"

subsection \<open>Guest memory and address translation\<close>

text \<open>
  The guest memory: the host address at which the guest address space starts, and the
  bytes of the mapped guest addresses (\<open>None\<close> outside the mapped ranges).
\<close>

record guest_memory =
  virtual_membase :: nat
  bytes :: "u32 \<rightharpoonup> u8"

type_synonym host_ptr = "nat option"

text \<open>
  Modelled from the spec: \<^verbatim>\<open>Memory::TranslateVirtual\<close> is missing. The spec's
  translator yields null for the address zero without looking at the memory map, null for
  an address outside the mapped ranges, and a host pointer otherwise.
\<close>

definition TranslateVirtual :: "guest_memory \<Rightarrow> u32 \<Rightarrow> host_ptr" where
  "TranslateVirtual m guest_address =
     (if guest_address = 0 then None
      else (case bytes m guest_address of
              None \<Rightarrow> None
            | Some b \<Rightarrow> Some (virtual_membase m + unat guest_address)))"

subsection \<open>Logging\<close>

datatype log_level = LogLevel_Error | LogLevel_Warning | LogLevel_Info | LogLevel_Debug

text \<open>One call of a logging macro: its severity, its format string and its arguments.\<close>

record log_entry =
  level :: log_level
  fmt :: string
  fmt_args :: "u32 list"

text \<open>
  What a call does to the world outside the function: the translator is called with a
  guest address and answers a host pointer, a line is handed to the logging sink, or the
  host pointer of a buffer is dereferenced.
\<close>

datatype event =
    is_Translated: Translated u32 host_ptr
  | is_Logged: Logged log_entry
  | is_Dereferenced: Dereferenced host_ptr

record machine =
  memory :: guest_memory
  trace :: "event list"

definition emit :: "event \<Rightarrow> machine \<Rightarrow> machine" where
  "emit e s = s\<lparr>trace := trace s @ [e]\<rparr>"

text \<open>
  Modelled from the spec: the macros \<^verbatim>\<open>XELOGD\<close> and \<^verbatim>\<open>XELOGE\<close> of
  \<^verbatim>\<open>xenia/base/logging.h\<close> are missing. Each call hands one entry of debug, respectively
  error, severity to the sink. The sink is taken to keep every entry it is handed: no
  filter by severity is modelled.
\<close>

definition XELOGD :: "string \<Rightarrow> u32 list \<Rightarrow> machine \<Rightarrow> machine" where
  "XELOGD f as s = emit (Logged \<lparr>level = LogLevel_Debug, fmt = f, fmt_args = as\<rparr>) s"

definition XELOGE :: "string \<Rightarrow> u32 list \<Rightarrow> machine \<Rightarrow> machine" where
  "XELOGE f as s = emit (Logged \<lparr>level = LogLevel_Error, fmt = f, fmt_args = as\<rparr>) s"

text \<open>
  The text of a logged line. The call sites of the macros (\<^verbatim>\<open>XELOGD\<close> in the stub
  handlers, \<^verbatim>\<open>XELOGE("Failed to launch target: {:08X}", result)\<close> in
  emulator_window.cc) write replacement fields in braces: \<^verbatim>\<open>{:08X}\<close> takes the next
  argument and prints it as eight upper-case hexadecimal digits. Every other character
  that is not a brace is copied. The formatter is modelled for the fields these sources
  use; any other use of a brace is \<open>None\<close>. Arguments left over are ignored.
\<close>

definition hex_digit :: "nat \<Rightarrow> char" where
  "hex_digit n = ''0123456789ABCDEF'' ! (n mod 16)"

definition hex8 :: "u32 \<Rightarrow> string" where
  "hex8 w = map (\<lambda>i. hex_digit (unat (drop_bit (4 * i) w AND 0xF))) [7, 6, 5, 4, 3, 2, 1, 0]"

fun xe_format :: "string \<Rightarrow> u32 list \<Rightarrow> string option" where
  "xe_format [] as = Some []"
| "xe_format (c # cs) as =
     (if c = CHR ''{'' then
        (if take 5 cs = '':08X}'' then
           (case as of
              [] \<Rightarrow> None
            | a # as' \<Rightarrow> map_option (\<lambda>r. hex8 a @ r) (xe_format (drop 5 cs) as'))
         else None)
      else if c = CHR ''}'' then None
      else map_option (\<lambda>r. c # r) (xe_format cs as))"

definition log_text :: "log_entry \<Rightarrow> string option" where
  "log_text e = xe_format (fmt e) (fmt_args e)"

subsection \<open>The service object and its dispatch\<close>

text \<open>The fields of the base class \<^verbatim>\<open>App\<close> that the dispatch reads.\<close>

record App =
  app_id :: u32

text \<open>\<^verbatim>\<open>XimeApp::XimeApp(KernelState* kernel_state) : App(kernel_state, 0xF5) {}\<close>\<close>

definition XimeApp :: App where
  "XimeApp = \<lparr>app_id = 0xF5\<rparr>"

text \<open>\<^verbatim>\<open>auto buffer = memory_->TranslateVirtual(buffer_ptr);\<close>\<close>

definition translate_buffer :: "machine \<Rightarrow> u32 \<Rightarrow> host_ptr \<times> machine" where
  "translate_buffer s buffer_ptr =
     (let buffer = TranslateVirtual (memory s) buffer_ptr
      in (buffer, emit (Translated buffer_ptr buffer) s))"

text \<open>
  The \<^verbatim>\<open>switch (message)\<close> statement. A case that matches logs and returns; \<open>None\<close>
  is the control leaving the switch with no case matched.
\<close>

definition switch_message ::
  "machine \<Rightarrow> host_ptr \<Rightarrow> u32 \<Rightarrow> u32 \<Rightarrow> u32 \<Rightarrow> X_RESULT option \<times> machine" where
  "switch_message s buffer message buffer_ptr buffer_length =
     (if message = 0x00400001 then
        (Some X_E_SUCCESS,
         XELOGD ''XimeInit({:08X}, {:08X}), unimplemented'' [buffer_ptr, buffer_length] s)
      else if message = 0x00400002 then
        (Some X_E_SUCCESS,
         XELOGD ''XimeUninit({:08X}, {:08X}), unimplemented'' [buffer_ptr, buffer_length] s)
      else if message = 0x00400003 then
        (Some X_E_SUCCESS,
         XELOGD ''XimeSetProperty({:08X}, {:08X}), unimplemented'' [buffer_ptr, buffer_length] s)
      else if message = 0x00400004 then
        (Some X_E_SUCCESS,
         XELOGD ''XimeSetCharacter({:08X}, {:08X}), unimplemented'' [buffer_ptr, buffer_length] s)
      else if message = 0x00400005 then
        (Some X_E_SUCCESS,
         XELOGD ''XimeGetString({:08X}, {:08X}), unimplemented'' [buffer_ptr, buffer_length] s)
      else (None, s))"

definition unimplemented_fmt :: string where
  "unimplemented_fmt =
     ''Unimplemented Xime message app=%.8X, msg=%.8X, arg1=%.8X, '' @ ''arg2=%.8X''"

definition DispatchMessageSync ::
  "App \<Rightarrow> machine \<Rightarrow> u32 \<Rightarrow> u32 \<Rightarrow> u32 \<Rightarrow> X_RESULT \<times> machine" where
  "DispatchMessageSync this s message buffer_ptr buffer_length =
     (let (buffer, s1) = translate_buffer s buffer_ptr
      in (case switch_message s1 buffer message buffer_ptr buffer_length of
            (Some r, s2) \<Rightarrow> (r, s2)
          | (None, s2) \<Rightarrow>
              (X_STATUS_UNSUCCESSFUL,
               XELOGE unimplemented_fmt [app_id this, message, buffer_ptr, buffer_length] s2)))"

text \<open>The opcode table of the service: the case labels of the switch.\<close>

definition xime_messages :: "u32 set" where
  "xime_messages = {0x00400001, 0x00400002, 0x00400003, 0x00400004, 0x00400005}"


text \<open>A machine with no guest memory mapped and nothing traced yet.\<close>

definition empty_machine :: machine where
  "empty_machine =
     \<lparr>memory = \<lparr>virtual_membase = 0x100000000, bytes = Map.empty\<rparr>, trace = []\<rparr>"

section \<open>Properties\<close>

lemma switch_message_matched:
  "message \<in> xime_messages \<Longrightarrow>
     fst (switch_message s buffer message buffer_ptr buffer_length) = Some X_E_SUCCESS"
  by (auto simp: switch_message_def xime_messages_def)

lemma switch_message_unmatched:
  "message \<notin> xime_messages \<Longrightarrow>
     switch_message s buffer message buffer_ptr buffer_length = (None, s)"
  by (simp add: switch_message_def xime_messages_def)


text \<open>A call with a message of the table: what it returns and what it leaves behind.\<close>

lemma DispatchMessageSync_matched:
  assumes "message \<in> xime_messages"
  shows "\<exists>f. DispatchMessageSync this s message buffer_ptr buffer_length =
           (X_E_SUCCESS,
            s\<lparr>trace := trace s @
                 [Translated buffer_ptr (TranslateVirtual (memory s) buffer_ptr),
                  Logged \<lparr>level = LogLevel_Debug, fmt = f,
                          fmt_args = [buffer_ptr, buffer_length]\<rparr>]\<rparr>)"
  using assms
  by (auto simp: DispatchMessageSync_def translate_buffer_def switch_message_def
      xime_messages_def XELOGD_def emit_def Let_def)

text \<open>A call with any other message.\<close>

lemma DispatchMessageSync_unmatched:
  assumes "message \<notin> xime_messages"
  shows "DispatchMessageSync this s message buffer_ptr buffer_length =
           (X_STATUS_UNSUCCESSFUL,
            s\<lparr>trace := trace s @
                 [Translated buffer_ptr (TranslateVirtual (memory s) buffer_ptr),
                  Logged \<lparr>level = LogLevel_Error, fmt = unimplemented_fmt,
                          fmt_args = [app_id this, message, buffer_ptr, buffer_length]\<rparr>]\<rparr>)"
  using assms
  by (simp add: DispatchMessageSync_def translate_buffer_def switch_message_unmatched
      XELOGE_def emit_def Let_def)

lemma DispatchMessageSync_result:
  "fst (DispatchMessageSync this s message buffer_ptr buffer_length) =
     (if message \<in> xime_messages then X_E_SUCCESS else X_STATUS_UNSUCCESSFUL)"
proof (cases "message \<in> xime_messages")
  case True
  from DispatchMessageSync_matched [OF True, of this s buffer_ptr buffer_length]
  show ?thesis using True by auto
next
  case False
  then show ?thesis by (simp add: DispatchMessageSync_unmatched)
qed

lemma DispatchMessageSync_trace:
  "\<exists>e. snd (DispatchMessageSync this s message buffer_ptr buffer_length) =
         s\<lparr>trace := trace s @
              [Translated buffer_ptr (TranslateVirtual (memory s) buffer_ptr), Logged e]\<rparr> \<and>
       (fmt_args e = [buffer_ptr, buffer_length] \<or>
        fmt_args e = [app_id this, message, buffer_ptr, buffer_length])"
proof (cases "message \<in> xime_messages")
  case True
  from DispatchMessageSync_matched [OF True, of this s buffer_ptr buffer_length]
  obtain f where "DispatchMessageSync this s message buffer_ptr buffer_length =
           (X_E_SUCCESS,
            s\<lparr>trace := trace s @
                 [Translated buffer_ptr (TranslateVirtual (memory s) buffer_ptr),
                  Logged \<lparr>level = LogLevel_Debug, fmt = f,
                          fmt_args = [buffer_ptr, buffer_length]\<rparr>]\<rparr>)" by blast
  then show ?thesis by auto
next
  case False
  let ?e = "\<lparr>level = LogLevel_Error, fmt = unimplemented_fmt,
             fmt_args = [app_id this, message, buffer_ptr, buffer_length]\<rparr>"
  have "snd (DispatchMessageSync this s message buffer_ptr buffer_length) =
          s\<lparr>trace := trace s @
               [Translated buffer_ptr (TranslateVirtual (memory s) buffer_ptr), Logged ?e]\<rparr>"
    by (simp add: DispatchMessageSync_unmatched [OF False])
  moreover have "fmt_args ?e = [app_id this, message, buffer_ptr, buffer_length]"
    by simp
  ultimately show ?thesis by blast
qed

text \<open>
  The format string of the unmatched path holds no replacement field, so its text is the
  format string itself, whatever the arguments are.
\<close>

lemma unimplemented_text: "xe_format unimplemented_fmt as = Some unimplemented_fmt"
  by (simp add: unimplemented_fmt_def)

text \<open>
  A stub handler's format string holds two replacement fields: its line shows both
  arguments as eight hexadecimal digits.
\<close>

lemma stub_text_example:
  "log_text \<lparr>level = LogLevel_Debug, fmt = ''XimeInit({:08X}, {:08X}), unimplemented'',
             fmt_args = [0x12345678, 0x10]\<rparr> =
     Some ''XimeInit(12345678, 00000010), unimplemented''"
  by (simp add: log_text_def hex8_def hex_digit_def)


subsection \<open>The messages of the table\<close>

text \<open>
  C1. For each of the five messages 0x00400001 to 0x00400005 of the service 0xF5, and for
  every buffer address and buffer length, the dispatch returns \<open>X_E_SUCCESS\<close>.
\<close>

theorem C1_known_messages_succeed:
  "message \<in> {0x00400001, 0x00400002, 0x00400003, 0x00400004, 0x00400005} \<Longrightarrow>
     fst (DispatchMessageSync XimeApp s message buffer_ptr buffer_length) = X_E_SUCCESS"
  by (simp add: DispatchMessageSync_result xime_messages_def)

text \<open>The call with message 0x00400001, no buffer and length zero.\<close>

theorem C1_known_messages_succeed_witness:
  "(0x00400001 :: u32) \<in> {0x00400001, 0x00400002, 0x00400003, 0x00400004, 0x00400005} \<and>
     fst (DispatchMessageSync XimeApp empty_machine 0x00400001 0 0) = X_E_SUCCESS"
  using C1_known_messages_succeed [of "0x00400001" empty_machine 0 0] by simp

subsection \<open>The unmatched path\<close>

text \<open>
  C2. A message outside the table returns \<open>X_STATUS_UNSUCCESSFUL\<close> and hands exactly one
  entry of error severity to the sink, with the service id, the message and both arguments
  as its arguments. The text of that entry was to show the four values in hexadecimal. It
  does not: at message 0x00400099 the line is the format string as written, with its
  \<^verbatim>\<open>%.8X\<close> left in place, since the format string has no replacement field.
\<close>

theorem C2_unmatched_text_has_no_values:
  "DispatchMessageSync XimeApp empty_machine 0x00400099 0 0 =
     (X_STATUS_UNSUCCESSFUL,
      empty_machine\<lparr>trace :=
        [Translated 0 None,
         Logged \<lparr>level = LogLevel_Error, fmt = unimplemented_fmt,
                 fmt_args = [0xF5, 0x00400099, 0, 0]\<rparr>]\<rparr>) \<and>
   log_text \<lparr>level = LogLevel_Error, fmt = unimplemented_fmt,
             fmt_args = [0xF5, 0x00400099, 0, 0]\<rparr> =
     Some ''Unimplemented Xime message app=%.8X, msg=%.8X, arg1=%.8X, arg2=%.8X''"
  by (simp add: DispatchMessageSync_def translate_buffer_def switch_message_def
      XELOGE_def emit_def TranslateVirtual_def XimeApp_def empty_machine_def log_text_def
      unimplemented_fmt_def)

subsection \<open>Every path returns\<close>

text \<open>
  C3. For all arguments the dispatch returns a result code: a case of the switch returns
  \<open>X_E_SUCCESS\<close>, and the code after the switch returns \<open>X_STATUS_UNSUCCESSFUL\<close> when no
  case matched. No path ends without a result.
\<close>

theorem C3_total:
  "\<exists>r s'. DispatchMessageSync this s message buffer_ptr buffer_length = (r, s') \<and>
          (r = X_E_SUCCESS \<or> r = X_STATUS_UNSUCCESSFUL)"
proof -
  obtain r s' where eq: "DispatchMessageSync this s message buffer_ptr buffer_length = (r, s')"
    by (cases "DispatchMessageSync this s message buffer_ptr buffer_length")
  have "r = fst (DispatchMessageSync this s message buffer_ptr buffer_length)"
    by (simp add: eq)
  then have "r = X_E_SUCCESS \<or> r = X_STATUS_UNSUCCESSFUL"
    by (simp add: DispatchMessageSync_result)
  with eq show ?thesis by blast
qed

subsection \<open>Address translation\<close>



text \<open>
  C5. The translator answers null for the address zero, whatever the guest memory is, and
  so does the translation that the dispatch makes for a zero buffer address. That null is
  no error: every message of the table still returns \<open>X_E_SUCCESS\<close>.
\<close>

theorem C5_null_buffer_not_an_error:
  "TranslateVirtual m 0 = None \<and>
   fst (translate_buffer s 0) = None \<and>
   (message \<in> xime_messages \<longrightarrow>
      fst (DispatchMessageSync XimeApp s message 0 buffer_length) = X_E_SUCCESS)"
proof -
  have "TranslateVirtual m' 0 = None" for m'
    by (simp add: TranslateVirtual_def)
  then show ?thesis
    by (simp add: translate_buffer_def Let_def DispatchMessageSync_result)
qed

text \<open>The call with message 0x00400005, no buffer and the length 16.\<close>

theorem C5_null_buffer_not_an_error_witness:
  "TranslateVirtual (memory empty_machine) 0 = None \<and>
   fst (translate_buffer empty_machine 0) = None \<and>
   (0x00400005 :: u32) \<in> xime_messages \<and>
   fst (DispatchMessageSync XimeApp empty_machine 0x00400005 0 16) = X_E_SUCCESS"
  using C5_null_buffer_not_an_error [of "memory empty_machine" empty_machine "0x00400005" 16]
  by (simp add: xime_messages_def)

subsection \<open>The failure predicate\<close>

text \<open>
  C6. The generic success is no failure, the generic failure is one, and the failure
  predicate of a code is that of its severity bits alone.
\<close>

theorem C6_failure_predicate:
  "\<not> XFAILED X_E_SUCCESS \<and> XFAILED X_STATUS_UNSUCCESSFUL \<and>
   XFAILED code = XFAILED (code AND severity_mask)"
  by (simp add: XFAILED_def XSUCCEEDED_def X_E_SUCCESS_def X_STATUS_UNSUCCESSFUL_def
      severity_mask_def and.assoc)

subsection \<open>What the result depends on, and what a call changes\<close>

text \<open>
  C7. Two calls with the same message, buffer address and length return the same result
  code, from whatever machine states they start; in particular a call repeated on the state
  that the first call left returns what the first call returned.
\<close>

theorem C7_same_arguments_same_result:
  "fst (DispatchMessageSync this s1 message buffer_ptr buffer_length) =
   fst (DispatchMessageSync this s2 message buffer_ptr buffer_length) \<and>
   fst (DispatchMessageSync this
          (snd (DispatchMessageSync this s message buffer_ptr buffer_length))
          message buffer_ptr buffer_length) =
   fst (DispatchMessageSync this s message buffer_ptr buffer_length)"
  by (simp add: DispatchMessageSync_result)

text \<open>
  C8. A call leaves the guest memory as it found it. The state after the call is the state
  before it with two events added to the trace: the query of the translator and one entry
  handed to the logging sink.
\<close>

theorem C8_guest_memory_unchanged:
  "memory (snd (DispatchMessageSync this s message buffer_ptr buffer_length)) = memory s \<and>
   (\<exists>e. snd (DispatchMessageSync this s message buffer_ptr buffer_length) =
          s\<lparr>trace := trace s @
               [Translated buffer_ptr (TranslateVirtual (memory s) buffer_ptr), Logged e]\<rparr>)"
proof -
  from DispatchMessageSync_trace [of this s message buffer_ptr buffer_length]
  obtain e where e:
    "snd (DispatchMessageSync this s message buffer_ptr buffer_length) =
       s\<lparr>trace := trace s @
            [Translated buffer_ptr (TranslateVirtual (memory s) buffer_ptr), Logged e]\<rparr>"
    by blast
  then have "memory (snd (DispatchMessageSync this s message buffer_ptr buffer_length)) =
               memory s"
    by simp
  with e show ?thesis by blast
qed

text \<open>
  C9. The result code is a function of the message alone: the buffer address, the length
  and the machine state (hence the translated pointer) have no influence on it.
\<close>

theorem C9_result_depends_on_message_only:
  "fst (DispatchMessageSync this s message buffer_ptr1 buffer_length1) =
   fst (DispatchMessageSync this s' message buffer_ptr2 buffer_length2)"
  by (simp add: DispatchMessageSync_result)


end
